theory Spec2Isabelle
  imports Main "HOL-Library.Sublist"
begin

section \<open>Python text operations used by the two probe scripts\<close>

text \<open>
  Text is modelled as a HOL \<open>string\<close> of ASCII characters. The functions below are the
  \<open>str\<close> methods the scripts call, restricted to ASCII: \<open>strip\<close>, \<open>isdigit\<close>,
  \<open>upper\<close>, \<open>lower\<close>, \<open>split\<close>, \<open>rsplit\<close>, \<open>join\<close> and \<open>int\<close>. Substring
  containment (\<open>a in b\<close>) is \<open>sublist a b\<close> and \<open>b.startswith(a)\<close> is \<open>prefix a b\<close>.
\<close>

definition isspace :: "char \<Rightarrow> bool" where
  "isspace c = (let n = (of_char c :: nat) in (9 \<le> n \<and> n \<le> 13) \<or> (28 \<le> n \<and> n \<le> 32))"

definition strip :: "string \<Rightarrow> string" where
  "strip s = rev (dropWhile isspace (rev (dropWhile isspace s)))"

definition isdigit_char :: "char \<Rightarrow> bool" where
  "isdigit_char c = (let n = (of_char c :: nat) in 48 \<le> n \<and> n \<le> 57)"

definition isdigit :: "string \<Rightarrow> bool" where
  "isdigit s = (s \<noteq> [] \<and> list_all isdigit_char s)"

definition digit_val :: "char \<Rightarrow> int" where
  "digit_val c = int (of_char c) - 48"

definition digits_value :: "string \<Rightarrow> int" where
  "digits_value s = foldl (\<lambda>acc c. 10 * acc + digit_val c) 0 s"

definition upper_char :: "char \<Rightarrow> char" where
  "upper_char c = (let n = (of_char c :: nat) in if 97 \<le> n \<and> n \<le> 122 then char_of (n - 32) else c)"

definition lower_char :: "char \<Rightarrow> char" where
  "lower_char c = (let n = (of_char c :: nat) in if 65 \<le> n \<and> n \<le> 90 then char_of (n + 32) else c)"

definition upper :: "string \<Rightarrow> string" where
  "upper s = map upper_char s"

definition lower :: "string \<Rightarrow> string" where
  "lower s = map lower_char s"

text \<open>\<open>s.split(sep)\<close> for a one-character separator: always at least one piece.\<close>

fun split_on :: "char \<Rightarrow> string \<Rightarrow> string list" where
  "split_on sep [] = [[]]"
| "split_on sep (c # cs) =
     (if c = sep then [] # split_on sep cs
      else (case split_on sep cs of
              w # ws \<Rightarrow> (c # w) # ws
            | [] \<Rightarrow> [[c]]))"

text \<open>\<open>s.rsplit(sep, 1)\<close> when \<open>sep\<close> occurs in \<open>s\<close>: the text before and after the
  last occurrence.\<close>

definition rsplit1 :: "char \<Rightarrow> string \<Rightarrow> string \<times> string" where
  "rsplit1 sep s =
     (let r = rev s
      in (rev (drop 1 (dropWhile (\<lambda>c. c \<noteq> sep) r)), rev (takeWhile (\<lambda>c. c \<noteq> sep) r)))"

text \<open>\<open>s.split(sep, 1)[1]\<close> when \<open>sep\<close> occurs in \<open>s\<close>: the text after the first
  occurrence.\<close>

definition after_first :: "char \<Rightarrow> string \<Rightarrow> string" where
  "after_first sep s = drop 1 (dropWhile (\<lambda>c. c \<noteq> sep) s)"

fun join :: "string \<Rightarrow> string list \<Rightarrow> string" where
  "join sep [] = []"
| "join sep [x] = x"
| "join sep (x # y # ys) = x @ sep @ join sep (y # ys)"


section \<open>tls\_cipher\_audit.py\<close>

record TLSResult =
  target :: string
  hostname :: string
  port :: int
  tls_version :: "string option"
  cipher_name :: "string option"
  cipher_protocol :: "string option"
  cipher_bits :: "int option"
  weak_protocol :: bool
  weak_cipher :: bool
  error :: "string option"

definition WEAK_PROTOCOLS :: "string set" where
  "WEAK_PROTOCOLS = {''SSLv2'', ''SSLv3'', ''TLSv1'', ''TLSv1.1''}"

definition WEAK_CIPHER_SUBSTRINGS :: "string list" where
  "WEAK_CIPHER_SUBSTRINGS = [''RC4'', ''3DES'', ''DES-'', ''MD5'', ''NULL'', ''EXPORT'']"

text \<open>A raised exception is the left summand, carrying the exception's message.\<close>

definition parse_target :: "string \<Rightarrow> string + TLSResult" where
  "parse_target raw =
     (let t = strip raw in
      if t = [] then Inl ''Empty target entry''
      else if CHR '':'' \<notin> set t then
        Inr \<lparr>target = t, hostname = t, port = 443, tls_version = None, cipher_name = None,
             cipher_protocol = None, cipher_bits = None, weak_protocol = False,
             weak_cipher = False, error = None\<rparr>
      else
        (let (host, port_str) = rsplit1 CHR '':'' t in
         if \<not> isdigit port_str then Inl (''Invalid port in target: '' @ t)
         else
           Inr \<lparr>target = t, hostname = host, port = digits_value port_str, tls_version = None,
                cipher_name = None, cipher_protocol = None, cipher_bits = None,
                weak_protocol = False, weak_cipher = False, error = None\<rparr>))"

definition is_weak_protocol :: "string option \<Rightarrow> bool" where
  "is_weak_protocol v =
     (case v of
        None \<Rightarrow> False
      | Some s \<Rightarrow> if s = [] then False else s \<in> WEAK_PROTOCOLS)"

definition is_weak_cipher :: "string option \<Rightarrow> int option \<Rightarrow> bool" where
  "is_weak_cipher name bits =
     (case name of
        None \<Rightarrow> False
      | Some n \<Rightarrow>
          if n = [] then False
          else if list_ex (\<lambda>bad. sublist bad (upper n)) WEAK_CIPHER_SUBSTRINGS then True
          else (case bits of
                  Some b \<Rightarrow> if b < 128 then True else False
                | None \<Rightarrow> False))"

text \<open>
  The network as \<open>check_target\<close> sees it. Connecting and handshaking with a host and port
  either raises (the exception's text) or yields an established socket; on that socket
  \<open>version()\<close> returns an optional string or raises, which the function catches, and
  \<open>cipher()\<close> returns an optional triple of name, protocol and secret bits. Reading the
  cipher and closing the socket are taken not to raise. The record \<open>t\<close> is updated in
  place by the source; the model returns the updated record.
\<close>

record tls_socket =
  sock_version :: "string + string option"
  sock_cipher :: "(string \<times> string \<times> int) option"

type_synonym tls_net = "string \<Rightarrow> int \<Rightarrow> string + tls_socket"

definition check_target :: "tls_net \<Rightarrow> TLSResult \<Rightarrow> TLSResult" where
  "check_target net t =
     (case net (hostname t) (port t) of
        Inl e \<Rightarrow> t\<lparr>error := Some e\<rparr>
      | Inr ssock \<Rightarrow>
          (let t1 = t\<lparr>tls_version := (case sock_version ssock of Inl _ \<Rightarrow> None | Inr v \<Rightarrow> v)\<rparr>;
               t2 = (case sock_cipher ssock of
                       None \<Rightarrow> t1
                     | Some (n, p, b) \<Rightarrow>
                         t1\<lparr>cipher_name := Some n, cipher_protocol := Some p,
                            cipher_bits := Some b\<rparr>)
           in t2\<lparr>weak_protocol := is_weak_protocol (tls_version t2),
                 weak_cipher := is_weak_cipher (cipher_name t2) (cipher_bits t2)\<rparr>))"

text \<open>The file named by \<open>--input\<close>: its path, and its lines when it exists.\<close>

record args =
  arg_target :: "string option"
  arg_targets :: "string option"
  arg_input :: "(string \<times> string list option) option"

fun load_targets_from_file :: "string list \<Rightarrow> string list" where
  "load_targets_from_file [] = []"
| "load_targets_from_file (l # ls) =
     (let line = strip l in
      if line = [] \<or> prefix ''#'' line then load_targets_from_file ls
      else line # load_targets_from_file ls)"

fun split_targets :: "string list \<Rightarrow> string list" where
  "split_targets [] = []"
| "split_targets (p # ps) =
     (let t = strip p in if t \<noteq> [] then t # split_targets ps else split_targets ps)"

text \<open>The loop that removes duplicates: \<open>seen\<close> is the set, \<open>unique_targets\<close> the list.\<close>

fun unique_loop :: "string list \<Rightarrow> string set \<Rightarrow> string list \<Rightarrow> string list" where
  "unique_loop [] seen unique_targets = unique_targets"
| "unique_loop (t # ts) seen unique_targets =
     (if t \<notin> seen then unique_loop ts (insert t seen) (unique_targets @ [t])
      else unique_loop ts seen unique_targets)"

definition gathered :: "args \<Rightarrow> string + string list" where
  "gathered a =
     (let targets1 = (case arg_target a of
                        Some t \<Rightarrow> if t \<noteq> [] then [t] else []
                      | None \<Rightarrow> []);
          targets2 = (case arg_targets a of
                        Some ts \<Rightarrow> if ts \<noteq> [] then targets1 @ split_targets (split_on CHR '','' ts)
                                   else targets1
                      | None \<Rightarrow> targets1)
      in case arg_input a of
           None \<Rightarrow> Inr targets2
         | Some (path, None) \<Rightarrow> Inl (''Input file not found: '' @ path)
         | Some (path, Some ls) \<Rightarrow> Inr (targets2 @ load_targets_from_file ls))"

definition gather_targets :: "args \<Rightarrow> string + string list" where
  "gather_targets a =
     (case gathered a of
        Inl e \<Rightarrow> Inl e
      | Inr targets \<Rightarrow>
          (let unique_targets = unique_loop targets {} [] in
           if unique_targets = [] then
             Inl ''No targets specified. Use --target, --targets, or --input.''
           else Inr unique_targets))"

text \<open>The body of the loop of \<open>main\<close> for one entry, and the loop itself.\<close>

definition probe_entry :: "tls_net \<Rightarrow> string \<Rightarrow> TLSResult" where
  "probe_entry net t_str =
     (case parse_target t_str of
        Inl e \<Rightarrow>
          \<lparr>target = t_str, hostname = t_str, port = 0, tls_version = None, cipher_name = None,
           cipher_protocol = None, cipher_bits = None, weak_protocol = False,
           weak_cipher = False, error = Some (''Invalid target format: '' @ e)\<rparr>
      | Inr t \<Rightarrow> check_target net t)"

fun main_loop :: "tls_net \<Rightarrow> string list \<Rightarrow> TLSResult list \<Rightarrow> TLSResult list" where
  "main_loop net [] results = results"
| "main_loop net (t_str # ts) results = main_loop net ts (results @ [probe_entry net t_str])"

definition main :: "tls_net \<Rightarrow> args \<Rightarrow> string + TLSResult list" where
  "main net a =
     (case gather_targets a of
        Inl e \<Rightarrow> Inl e
      | Inr targets \<Rightarrow> Inr (main_loop net targets []))"


section \<open>weak\_configuration\_scanner.py\<close>

text \<open>\<open>int(s)\<close> on text: surrounding whitespace is dropped, one sign is allowed, and the
  digits may be grouped by single underscores. \<open>None\<close> stands for the raised
  \<open>ValueError\<close>.\<close>

fun int_body :: "string \<Rightarrow> bool" where
  "int_body [] = False"
| "int_body [c] = isdigit_char c"
| "int_body (c # d # cs) =
     (isdigit_char c \<and> (if d = CHR ''_'' then int_body cs else int_body (d # cs)))"

definition py_int :: "string \<Rightarrow> int option" where
  "py_int s =
     (case strip s of
        [] \<Rightarrow> None
      | c # cs \<Rightarrow>
          if c = CHR ''-'' then
            (if int_body cs then Some (- digits_value (filter (\<lambda>x. x \<noteq> CHR ''_'') cs)) else None)
          else if c = CHR ''+'' then
            (if int_body cs then Some (digits_value (filter (\<lambda>x. x \<noteq> CHR ''_'') cs)) else None)
          else
            (if int_body (c # cs) then Some (digits_value (filter (\<lambda>x. x \<noteq> CHR ''_'') (c # cs)))
             else None))"

definition REQUIRED_HEADERS :: "string list" where
  "REQUIRED_HEADERS =
     [''strict-transport-security'', ''content-security-policy'', ''x-content-type-options'',
      ''x-frame-options'', ''referrer-policy'']"

definition OPTIONAL_HEADERS :: "string list" where
  "OPTIONAL_HEADERS = [''permissions-policy'', ''x-xss-protection'']"

text \<open>
  A response as the scanner reads it: its URL, its status code and its header fields as
  name and value pairs. The scanner's own result record follows; its \<open>error\<close> field is
  named \<open>site_error\<close> here, and the fields of a response carry the prefix \<open>resp\<close>.
\<close>

record response =
  resp_url :: string
  resp_status_code :: int
  resp_headers :: "(string \<times> string) list"

record SiteCheckResult =
  url :: string
  final_url :: "string option"
  scheme :: "string option"
  status_code :: "int option"
  redirect_chain :: string
  https_downgrade :: bool
  missing_required_headers :: string
  missing_optional_headers :: string
  header_findings :: string
  site_error :: "string option"

text \<open>
  What lies outside the script: \<open>http_get n u\<close> is the outcome of the session's request
  number \<open>n\<close> (counted from 0) for the URL \<open>u\<close>, either a raised exception's text or a
  response; \<open>urljoin\<close> resolves a location against a base URL and may raise;
  \<open>urlparse_scheme\<close> is the scheme that \<open>urlparse\<close> reports for a URL.
\<close>

record http_env =
  http_get :: "nat \<Rightarrow> string \<Rightarrow> string + response"
  urljoin :: "string \<Rightarrow> string \<Rightarrow> string + string"
  urlparse_scheme :: "string \<Rightarrow> string"

text \<open>The header fields keyed by lower-cased name; a later field replaces an earlier one
  of the same name.\<close>

definition header_dict :: "(string \<times> string) list \<Rightarrow> (string \<rightharpoonup> string)" where
  "header_dict hs = fold (\<lambda>(k, v) m. m(lower k \<mapsto> v)) hs Map.empty"

definition normalize_url :: "http_env \<Rightarrow> string \<Rightarrow> string + string" where
  "normalize_url env raw =
     (let u = strip raw in
      if u = [] then Inl ''Empty URL''
      else if urlparse_scheme env u = [] then Inr (''https://'' @ u)
      else Inr u)"

definition max_redirects :: nat where
  "max_redirects = 10"

definition is_redirect :: "response \<Rightarrow> bool" where
  "is_redirect resp = (300 \<le> resp_status_code resp \<and> resp_status_code resp < 400)"

text \<open>The \<open>while\<close> loop of \<open>fetch_url\<close>: \<open>resp\<close> is the latest response and
  \<open>responses\<close> the chain so far.\<close>

function follow :: "http_env \<Rightarrow> response \<Rightarrow> response list \<Rightarrow> string + response list" where
  "follow env resp responses =
     (if is_redirect resp \<and> length responses < max_redirects then
        (case header_dict (resp_headers resp) ''location'' of
           None \<Rightarrow> Inr responses
         | Some location \<Rightarrow>
             (case urljoin env (resp_url resp) location of
                Inl e \<Rightarrow> Inl e
              | Inr next_url \<Rightarrow>
                  (case http_get env (length responses) next_url of
                     Inl e \<Rightarrow> Inl e
                   | Inr resp' \<Rightarrow> follow env resp' (responses @ [resp']))))
      else Inr responses)"
  by pat_completeness auto
termination
  by (relation "measure (\<lambda>(env, resp, responses). max_redirects - length responses)") auto

declare follow.simps [simp del]

definition fetch_url :: "http_env \<Rightarrow> string \<Rightarrow> response list \<times> string option" where
  "fetch_url env u =
     (case http_get env 0 u of
        Inl e \<Rightarrow> ([], Some e)
      | Inr resp \<Rightarrow>
          (case follow env resp [resp] of
             Inl e \<Rightarrow> ([], Some e)
           | Inr responses \<Rightarrow> (responses, None)))"

text \<open>The variable \<open>max_age_part\<close> of \<open>check_security_headers\<close>: the first trimmed
  piece between semicolons that begins with \<open>max-age\<close> in any case, or the empty text.\<close>

definition max_age_part :: "string \<Rightarrow> string" where
  "max_age_part hsts =
     (case filter (\<lambda>p. prefix ''max-age'' (lower p)) (map strip (split_on CHR '';'' hsts)) of
        [] \<Rightarrow> []
      | p # _ \<Rightarrow> p)"

text \<open>The HSTS part of \<open>check_security_headers\<close>, for the value that
  \<open>headers.get\<close> returns.\<close>

definition hsts_findings :: "string option \<Rightarrow> string list" where
  "hsts_findings hsts =
     (case hsts of
        None \<Rightarrow> [''HSTS missing (for HTTPS site)'']
      | Some h \<Rightarrow>
          if h = [] then [''HSTS missing (for HTTPS site)'']
          else if \<not> sublist ''max-age'' (lower h) then [''HSTS present but max-age missing'']
          else if CHR ''='' \<in> set (max_age_part h) then
            (case py_int (after_first CHR ''='' (max_age_part h)) of
               None \<Rightarrow> [''Could not parse HSTS max-age'']
             | Some val \<Rightarrow>
                 if val < 15552000 then [''HSTS max-age < 6 months (consider increasing)'']
                 else [])
          else [])"

definition present :: "string option \<Rightarrow> bool" where
  "present v = (case v of None \<Rightarrow> False | Some s \<Rightarrow> s \<noteq> [])"

text \<open>The single quote that the messages put around a header value.\<close>

definition sq :: string where
  "sq = [CHR 0x27]"

definition other_findings :: "(string \<rightharpoonup> string) \<Rightarrow> string list" where
  "other_findings headers =
     (if \<not> present (headers ''content-security-policy'')
      then [''Content-Security-Policy header missing''] else []) @
     (case headers ''x-content-type-options'' of
        None \<Rightarrow> [''X-Content-Type-Options missing'']
      | Some xcto \<Rightarrow>
          if xcto = [] then [''X-Content-Type-Options missing'']
          else if lower xcto \<noteq> ''nosniff''
          then [''X-Content-Type-Options is '' @ sq @ xcto @ sq @ '', expected '' @ sq @ ''nosniff'' @ sq] else []) @
     (case headers ''x-frame-options'' of
        None \<Rightarrow> [''X-Frame-Options missing (consider SAMEORIGIN or DENY)'']
      | Some xfo \<Rightarrow>
          if xfo = [] then [''X-Frame-Options missing (consider SAMEORIGIN or DENY)'']
          else if lower xfo \<notin> {''deny'', ''sameorigin''}
          then [''X-Frame-Options value '' @ sq @ xfo @ sq @ '' is non-standard; prefer DENY or SAMEORIGIN'']
          else []) @
     (case headers ''referrer-policy'' of
        None \<Rightarrow> [''Referrer-Policy missing (consider 'strict-origin-when-cross-origin')'']
      | Some rp \<Rightarrow>
          if rp = [] then [''Referrer-Policy missing (consider 'strict-origin-when-cross-origin')'']
          else if lower rp \<in> {''no-referrer-when-downgrade'', ''unsafe-url''}
          then [''Referrer-Policy '' @ sq @ rp @ sq @ '' is weaker than recommended''] else []) @
     (if \<not> present (headers ''permissions-policy'')
      then [''Permissions-Policy missing (not critical but recommended)''] else []) @
     (case headers ''x-xss-protection'' of
        None \<Rightarrow> []
      | Some xxp \<Rightarrow>
          if xxp = [] then []
          else [''X-XSS-Protection present (legacy): '' @ sq @ xxp @ sq])"

definition check_security_headers :: "response \<Rightarrow> string list \<times> string list \<times> string list" where
  "check_security_headers resp =
     (let headers = header_dict (resp_headers resp);
          missing_required = filter (\<lambda>h. headers h = None) REQUIRED_HEADERS;
          missing_optional = filter (\<lambda>h. headers h = None) OPTIONAL_HEADERS;
          findings = hsts_findings (headers ''strict-transport-security'') @ other_findings headers
      in (missing_required, missing_optional, findings))"

definition analyse_target :: "http_env \<Rightarrow> string \<Rightarrow> string + SiteCheckResult" where
  "analyse_target env raw =
     (case normalize_url env raw of
        Inl e \<Rightarrow> Inl e
      | Inr u \<Rightarrow>
          (case fetch_url env u of
             (responses, err) \<Rightarrow>
               if err \<noteq> None \<or> responses = [] then
                 Inr \<lparr>url = u, final_url = None, scheme = None, status_code = None,
                      redirect_chain = [], https_downgrade = False,
                      missing_required_headers = [], missing_optional_headers = [],
                      header_findings = [],
                      site_error = Some (case err of Some e \<Rightarrow> e | None \<Rightarrow> ''No response'')\<rparr>
               else
                 (let chain_urls = map resp_url responses;
                      first_scheme = urlparse_scheme env (resp_url (hd responses));
                      final_resp = last responses;
                      final_scheme = urlparse_scheme env (resp_url final_resp);
                      (missing_required, missing_optional, findings) =
                        (if \<not> is_redirect final_resp then check_security_headers final_resp
                         else ([], [], []))
                  in Inr \<lparr>url = u, final_url = Some (resp_url final_resp),
                          scheme = Some final_scheme,
                          status_code = Some (resp_status_code final_resp),
                          redirect_chain = join '' -> '' chain_urls,
                          https_downgrade = (first_scheme = ''https'' \<and> final_scheme = ''http''),
                          missing_required_headers = join '';'' missing_required,
                          missing_optional_headers = join '';'' missing_optional,
                          header_findings = join '' | '' findings,
                          site_error = None\<rparr>)))"

text \<open>Example servers: one that answers every request with a 302 and a location, one
  whose first answer is a redirect and whose second request fails, and one that redirects
  from HTTPS to a plain HTTP page.\<close>

definition simple_scheme :: "string \<Rightarrow> string" where
  "simple_scheme u = (if CHR '':'' \<in> set u then lower (takeWhile (\<lambda>c. c \<noteq> CHR '':'') u) else [])"

definition redirecting_env :: http_env where
  "redirecting_env =
     \<lparr>http_get = (\<lambda>n u. Inr \<lparr>resp_url = u, resp_status_code = 302,
                               resp_headers = [(''Location'', ''/r'')]\<rparr>),
      urljoin = (\<lambda>b l. Inr (b @ l)),
      urlparse_scheme = simple_scheme\<rparr>"


definition downgrade_env :: http_env where
  "downgrade_env =
     \<lparr>http_get = (\<lambda>n u. if n = 0
                         then Inr \<lparr>resp_url = u, resp_status_code = 301,
                                   resp_headers = [(''Location'', ''http://site/'')]\<rparr>
                         else Inr \<lparr>resp_url = u, resp_status_code = 200,
                                   resp_headers =
                                     [(''Strict-Transport-Security'', ''max-age=abc''),
                                      (''X-Frame-Options'', ''DENY'')]\<rparr>),
      urljoin = (\<lambda>b l. Inr l),
      urlparse_scheme = simple_scheme\<rparr>"

definition dead_end_env :: http_env where
  "dead_end_env =
     \<lparr>http_get = (\<lambda>n u. if n = 0
                         then Inr \<lparr>resp_url = u, resp_status_code = 301,
                                   resp_headers = [(''Location'', ''https://site/next'')]\<rparr>
                         else Inr \<lparr>resp_url = u, resp_status_code = 304,
                                   resp_headers = [(''Content-Type'', ''text/html'')]\<rparr>),
      urljoin = (\<lambda>b l. Inr l),
      urlparse_scheme = simple_scheme\<rparr>"

section \<open>The specification's wording of the TLS cipher rule\<close>

text \<open>Case-insensitive containment compares both texts in upper case.\<close>

definition ci_contains :: "string \<Rightarrow> string \<Rightarrow> bool" where
  "ci_contains s sub = sublist (upper sub) (upper s)"

definition weakCipher_spec :: "string option \<Rightarrow> int option \<Rightarrow> bool" where
  "weakCipher_spec name bits =
     ((case name of Some n \<Rightarrow> list_ex (ci_contains n) WEAK_CIPHER_SUBSTRINGS | None \<Rightarrow> False) \<or>
      (case bits of Some b \<Rightarrow> b < 128 | None \<Rightarrow> False))"


section \<open>Facts about the text operations\<close>

lemma rsplit1_last:
  assumes "sep \<notin> set p"
  shows "rsplit1 sep (h @ sep # p) = (h, p)"
proof -
  have "dropWhile (\<lambda>c. c \<noteq> sep) (rev p @ sep # rev h) = dropWhile (\<lambda>c. c \<noteq> sep) (sep # rev h)"
    by (rule dropWhile_append2) (use assms in auto)
  moreover have "takeWhile (\<lambda>c. c \<noteq> sep) (rev p @ sep # rev h) =
      rev p @ takeWhile (\<lambda>c. c \<noteq> sep) (sep # rev h)"
    by (rule takeWhile_append2) (use assms in auto)
  ultimately show ?thesis by (simp add: rsplit1_def)
qed

lemma rsplit1_decompose:
  assumes "sep \<in> set s"
  shows "\<exists>h p. s = h @ sep # p \<and> sep \<notin> set p \<and> rsplit1 sep s = (h, p)"
proof -
  from split_list_last [OF assms] obtain h p where "s = h @ sep # p" "sep \<notin> set p" by blast
  then show ?thesis using rsplit1_last by blast
qed

lemma foldl_digits_nonneg:
  "list_all isdigit_char s \<Longrightarrow> 0 \<le> acc \<Longrightarrow> 0 \<le> foldl (\<lambda>acc c. 10 * acc + digit_val c) acc s"
proof (induction s arbitrary: acc)
  case Nil then show ?case by simp
next
  case (Cons c cs)
  have "0 \<le> digit_val c" using Cons.prems(1) by (simp add: isdigit_char_def digit_val_def Let_def)
  then have "0 \<le> 10 * acc + digit_val c" using Cons.prems(2) by simp
  then show ?case using Cons by simp
qed

lemma digits_value_nonneg: "isdigit s \<Longrightarrow> 0 \<le> digits_value s"
  by (simp add: isdigit_def digits_value_def foldl_digits_nonneg)

lemma upper_deny_list: "map upper WEAK_CIPHER_SUBSTRINGS = WEAK_CIPHER_SUBSTRINGS"
  by (simp add: WEAK_CIPHER_SUBSTRINGS_def upper_def upper_char_def)

lemma deny_list_match:
  "list_ex (ci_contains n) WEAK_CIPHER_SUBSTRINGS =
   list_ex (\<lambda>bad. sublist bad (upper n)) WEAK_CIPHER_SUBSTRINGS"
proof -
  have "list_ex (ci_contains n) WEAK_CIPHER_SUBSTRINGS =
        list_ex (\<lambda>bad. sublist bad (upper n)) (map upper WEAK_CIPHER_SUBSTRINGS)"
    by (simp add: list_ex_iff ci_contains_def)
  then show ?thesis by (simp only: upper_deny_list)
qed

lemma main_loop_map: "main_loop net ts results = results @ map (probe_entry net) ts"
  by (induction ts arbitrary: results) simp_all

text \<open>The loop that removes duplicates keeps the first occurrence of every entry, in
  order.\<close>

lemma remdups_snoc:
  "remdups (xs @ [t]) = remdups (filter (\<lambda>x. x \<noteq> t) xs) @ [t]"
  by (induction xs) auto

lemma unique_loop_first_seen:
  "set acc = seen \<Longrightarrow>
     unique_loop ts seen acc = acc @ rev (remdups (rev (filter (\<lambda>t. t \<notin> seen) ts)))"
proof (induction ts arbitrary: seen acc)
  case Nil
  then show ?case by simp
next
  case (Cons t ts)
  show ?case
  proof (cases "t \<in> seen")
    case True
    then show ?thesis using Cons.IH [OF Cons.prems] by simp
  next
    case False
    have "set (acc @ [t]) = insert t seen" using Cons.prems by auto
    from Cons.IH [OF this]
    have "unique_loop ts (insert t seen) (acc @ [t]) =
            acc @ t # rev (remdups (rev (filter (\<lambda>x. x \<notin> insert t seen) ts)))"
      by simp
    moreover have "filter (\<lambda>x. x \<noteq> t) (rev (filter (\<lambda>x. x \<notin> seen) ts)) =
        rev (filter (\<lambda>x. x \<notin> insert t seen) ts)"
      by (simp add: rev_filter [symmetric] conj_commute)
    ultimately show ?thesis using False by (simp add: remdups_snoc)
  qed
qed

lemma unique_targets_first_seen:
  "unique_loop ts {} [] = rev (remdups (rev ts)) \<and> distinct (unique_loop ts {} []) \<and>
   set (unique_loop ts {} []) = set ts"
  using unique_loop_first_seen [of "[]" "{}" ts] by simp

lemma parse_target_errors:
  "parse_target raw = Inl e \<Longrightarrow>
     (strip raw = [] \<and> e = ''Empty target entry'') \<or>
     (CHR '':'' \<in> set (strip raw) \<and> \<not> isdigit (snd (rsplit1 CHR '':'' (strip raw))) \<and>
      e = ''Invalid port in target: '' @ strip raw)"
  by (auto simp: parse_target_def Let_def split: if_splits prod.splits)


section \<open>Facts about the redirect loop\<close>

lemma follow_done:
  "\<not> (is_redirect resp \<and> length responses < max_redirects) \<Longrightarrow>
     follow env resp responses = Inr responses"
  by (subst follow.simps) (rule if_not_P)

lemma follow_step:
  "is_redirect resp \<and> length responses < max_redirects \<Longrightarrow>
     follow env resp responses =
       (case header_dict (resp_headers resp) ''location'' of
          None \<Rightarrow> Inr responses
        | Some location \<Rightarrow>
            (case urljoin env (resp_url resp) location of
               Inl e \<Rightarrow> Inl e
             | Inr next_url \<Rightarrow>
                 (case http_get env (length responses) next_url of
                    Inl e \<Rightarrow> Inl e
                  | Inr resp' \<Rightarrow> follow env resp' (responses @ [resp']))))"
  by (subst follow.simps) (rule if_P)

lemma follow_stops:
  "header_dict (resp_headers resp) ''location'' = None \<Longrightarrow>
     follow env resp responses = Inr responses"
  by (cases "is_redirect resp \<and> length responses < max_redirects")
     (simp_all add: follow_step follow_done)

lemma follow_next:
  assumes "follow env resp responses = Inr rs"
    and "is_redirect resp \<and> length responses < max_redirects"
    and "header_dict (resp_headers resp) ''location'' = Some location"
  obtains next_url resp' where
    "urljoin env (resp_url resp) location = Inr next_url"
    "http_get env (length responses) next_url = Inr resp'"
    "follow env resp' (responses @ [resp']) = Inr rs"
  using assms by (simp add: follow_step split: sum.splits)

lemma follow_prefix:
  "follow env resp responses = Inr rs \<Longrightarrow>
     prefix responses rs \<and> length rs \<le> max (length responses) max_redirects"
proof (induction env resp responses arbitrary: rs rule: follow.induct)
  case (1 env resp responses)
  show ?case
  proof (cases "is_redirect resp \<and> length responses < max_redirects")
    case False
    then have "rs = responses" using "1.prems" by (simp add: follow_done)
    then show ?thesis by simp
  next
    case True
    show ?thesis
    proof (cases "header_dict (resp_headers resp) ''location''")
      case None
      then have "rs = responses" using "1.prems" by (simp add: follow_stops)
      then show ?thesis by simp
    next
      case (Some location)
      from follow_next [OF "1.prems" True Some] obtain next_url resp' where
        j: "urljoin env (resp_url resp) location = Inr next_url" and
        g: "http_get env (length responses) next_url = Inr resp'" and
        f: "follow env resp' (responses @ [resp']) = Inr rs"
        by blast
      from "1.IH" [OF True Some j g f]
      have "prefix (responses @ [resp']) rs"
        "length rs \<le> max (length (responses @ [resp'])) max_redirects"
        by simp_all
      then show ?thesis using True by (auto dest: append_prefixD)
    qed
  qed
qed

lemma follow_exit:
  "follow env resp responses = Inr rs \<Longrightarrow> responses \<noteq> [] \<Longrightarrow> last responses = resp \<Longrightarrow>
     \<not> (is_redirect (last rs) \<and> header_dict (resp_headers (last rs)) ''location'' \<noteq> None \<and>
        length rs < max_redirects)"
proof (induction env resp responses arbitrary: rs rule: follow.induct)
  case (1 env resp responses)
  show ?case
  proof (cases "is_redirect resp \<and> length responses < max_redirects")
    case False
    then have "rs = responses" using "1.prems" by (simp add: follow_done)
    then show ?thesis using False "1.prems" by auto
  next
    case True
    show ?thesis
    proof (cases "header_dict (resp_headers resp) ''location''")
      case None
      then have "rs = responses" using "1.prems" by (simp add: follow_stops)
      then show ?thesis using None "1.prems" by auto
    next
      case (Some location)
      from follow_next [OF "1.prems"(1) True Some] obtain next_url resp' where
        j: "urljoin env (resp_url resp) location = Inr next_url" and
        g: "http_get env (length responses) next_url = Inr resp'" and
        f: "follow env resp' (responses @ [resp']) = Inr rs"
        by blast
      show ?thesis by (rule "1.IH" [OF True Some j g f]) simp_all
    qed
  qed
qed

lemma follow_redirecting:
  "\<forall>n u'. n < 10 \<longrightarrow> (\<exists>r. http_get env n u' = Inr r \<and> is_redirect r \<and>
                 header_dict (resp_headers r) ''location'' \<noteq> None) \<Longrightarrow>
   \<forall>b l. \<exists>x. urljoin env b l = Inr x \<Longrightarrow>
   is_redirect resp \<Longrightarrow> header_dict (resp_headers resp) ''location'' \<noteq> None \<Longrightarrow>
   responses \<noteq> [] \<Longrightarrow> last responses = resp \<Longrightarrow> length responses \<le> 10 \<Longrightarrow>
     \<exists>rs. follow env resp responses = Inr rs \<and> length rs = 10 \<and> is_redirect (last rs)"
proof (induction env resp responses rule: follow.induct)
  case (1 env resp responses)
  show ?case
  proof (cases "length responses < max_redirects")
    case False
    then have "length responses = 10" using "1.prems" by (simp add: max_redirects_def)
    moreover have "follow env resp responses = Inr responses" using False by (simp add: follow_done)
    ultimately show ?thesis using "1.prems" by auto
  next
    case True
    then have c: "is_redirect resp \<and> length responses < max_redirects" using "1.prems" by simp
    from "1.prems" obtain location where
      l: "header_dict (resp_headers resp) ''location'' = Some location" by auto
    from "1.prems"(2) obtain next_url where
      j: "urljoin env (resp_url resp) location = Inr next_url" by blast
    from True have "length responses < 10" by (simp add: max_redirects_def)
    with "1.prems"(1) obtain resp' where
      g: "http_get env (length responses) next_url = Inr resp'" and
      r: "is_redirect resp'" "header_dict (resp_headers resp') ''location'' \<noteq> None"
      by blast
    have "\<exists>rs. follow env resp' (responses @ [resp']) = Inr rs \<and> length rs = 10 \<and>
            is_redirect (last rs)"
      using True by (intro "1.IH" [OF c l j g "1.prems"(1,2) r]) (simp_all add: max_redirects_def)
    moreover have "follow env resp responses = follow env resp' (responses @ [resp'])"
      using c l j g by (simp add: follow_step)
    ultimately show ?thesis by simp
  qed
qed

lemma fetch_url_ok:
  assumes "fetch_url env u = (rs, None)"
  shows "\<exists>r0. http_get env 0 u = Inr r0 \<and> follow env r0 [r0] = Inr rs \<and> rs \<noteq> [] \<and> hd rs = r0"
proof -
  from assms obtain r0 where g: "http_get env 0 u = Inr r0" and f: "follow env r0 [r0] = Inr rs"
    by (auto simp: fetch_url_def split: sum.splits)
  from follow_prefix [OF f] have "prefix [r0] rs" by simp
  then have "rs \<noteq> [] \<and> hd rs = r0" by (auto simp: prefix_def)
  with g f show ?thesis by blast
qed


lemma analyse_target_ok:
  assumes "normalize_url env raw = Inr u" and "fetch_url env u = (rs, None)"
  shows "analyse_target env raw =
     Inr \<lparr>url = u, final_url = Some (resp_url (last rs)),
          scheme = Some (urlparse_scheme env (resp_url (last rs))),
          status_code = Some (resp_status_code (last rs)),
          redirect_chain = join '' -> '' (map resp_url rs),
          https_downgrade = (urlparse_scheme env (resp_url (hd rs)) = ''https'' \<and>
                             urlparse_scheme env (resp_url (last rs)) = ''http''),
          missing_required_headers =
            join '';'' (if is_redirect (last rs) then [] else fst (check_security_headers (last rs))),
          missing_optional_headers =
            join '';'' (if is_redirect (last rs) then []
                        else fst (snd (check_security_headers (last rs)))),
          header_findings =
            join '' | '' (if is_redirect (last rs) then []
                          else snd (snd (check_security_headers (last rs)))),
          site_error = None\<rparr>"
proof -
  from fetch_url_ok [OF assms(2)] have ne: "rs \<noteq> []" by blast
  show ?thesis
    using assms ne by (simp add: analyse_target_def Let_def split: prod.splits)
qed



section \<open>Facts about the header checks and the TLS probe\<close>

















section \<open>Target parsing\<close>

text \<open>
  C5, as amended. Every raw target string that \<open>parse_target\<close> accepts yields a descriptor
  whose \<open>target\<close> is the trimmed input, which is not empty. Without a colon the host is the
  trimmed input and the port is 443. With a colon the host is the text before the last colon
  (it may be empty) and the port is the value of the decimal digits after it, which is not
  negative and is not checked against any upper bound. An empty entry is rejected with
  \<open>Empty target entry\<close> and a port that is not a non-empty run of digits with
  \<open>Invalid port in target: ...\<close>.
\<close>

theorem parse_target_accepted:
  "(parse_target raw = Inr d \<longrightarrow>
      target d = strip raw \<and> strip raw \<noteq> [] \<and>
      (CHR '':'' \<notin> set (strip raw) \<longrightarrow> hostname d = strip raw \<and> port d = 443) \<and>
      (CHR '':'' \<in> set (strip raw) \<longrightarrow>
         (\<exists>port_str. strip raw = hostname d @ CHR '':'' # port_str \<and> CHR '':'' \<notin> set port_str \<and>
            isdigit port_str \<and> port d = digits_value port_str \<and> 0 \<le> port d))) \<and>
   (strip raw = [] \<longrightarrow> parse_target raw = Inl ''Empty target entry'') \<and>
   (\<forall>h p. strip raw = h @ CHR '':'' # p \<and> CHR '':'' \<notin> set p \<and> \<not> isdigit p \<longrightarrow>
      parse_target raw = Inl (''Invalid port in target: '' @ strip raw))"
proof (intro conjI impI allI)
  assume a: "parse_target raw = Inr d"
  show "strip raw \<noteq> []" using a by (auto simp: parse_target_def Let_def split: if_splits)
  show "target d = strip raw" using a
    by (auto simp: parse_target_def Let_def split: if_splits prod.splits)
  { assume "CHR '':'' \<notin> set (strip raw)"
    then show "hostname d = strip raw" "port d = 443" using a
      by (auto simp: parse_target_def Let_def split: if_splits) }
  { assume c: "CHR '':'' \<in> set (strip raw)"
    from rsplit1_decompose [OF c] obtain h p where
      hp: "strip raw = h @ CHR '':'' # p" "CHR '':'' \<notin> set p" "rsplit1 CHR '':'' (strip raw) = (h, p)"
      by blast
    have ne: "strip raw \<noteq> []" using hp by simp
    have "isdigit p \<and> hostname d = h \<and> port d = digits_value p"
      using a c hp(3) ne by (auto simp: parse_target_def Let_def split: if_splits)
    then show "\<exists>port_str. strip raw = hostname d @ CHR '':'' # port_str \<and> CHR '':'' \<notin> set port_str \<and>
            isdigit port_str \<and> port d = digits_value port_str \<and> 0 \<le> port d"
      using hp digits_value_nonneg by auto }
next
  assume "strip raw = []" then show "parse_target raw = Inl ''Empty target entry''"
    by (simp add: parse_target_def)
next
  fix h p assume "strip raw = h @ CHR '':'' # p \<and> CHR '':'' \<notin> set p \<and> \<not> isdigit p"
  then show "parse_target raw = Inl (''Invalid port in target: '' @ strip raw)"
    using rsplit1_last [of "CHR '':''" p h] by (simp add: parse_target_def Let_def)
qed



theorem parse_target_accepted_witness:
  "(parse_target ''example.com'' =
      Inr \<lparr>target = ''example.com'', hostname = ''example.com'', port = 443, tls_version = None,
           cipher_name = None, cipher_protocol = None, cipher_bits = None, weak_protocol = False,
           weak_cipher = False, error = None\<rparr> \<and>
    CHR '':'' \<notin> set (strip ''example.com'')) \<and>
   (parse_target '' example.com:8443 '' =
      Inr \<lparr>target = ''example.com:8443'', hostname = ''example.com'', port = 8443,
           tls_version = None, cipher_name = None, cipher_protocol = None, cipher_bits = None,
           weak_protocol = False, weak_cipher = False, error = None\<rparr> \<and>
    CHR '':'' \<in> set (strip '' example.com:8443 '') \<and>
    (\<exists>port_str. strip '' example.com:8443 '' = ''example.com'' @ CHR '':'' # port_str \<and>
       isdigit port_str \<and> digits_value port_str = 8443)) \<and>
   (strip ''  '' = [] \<and> parse_target ''  '' = Inl ''Empty target entry'') \<and>
   (strip ''a:b'' = ''a'' @ CHR '':'' # ''b'' \<and> CHR '':'' \<notin> set ''b'' \<and> \<not> isdigit ''b'' \<and>
    parse_target ''a:b'' = Inl (''Invalid port in target: '' @ strip ''a:b''))"
proof -
  have p1: "parse_target ''example.com'' =
      Inr \<lparr>target = ''example.com'', hostname = ''example.com'', port = 443, tls_version = None,
           cipher_name = None, cipher_protocol = None, cipher_bits = None, weak_protocol = False,
           weak_cipher = False, error = None\<rparr>"
    by code_simp
  have s1: "strip ''example.com'' = ''example.com''" by code_simp
  have p2: "parse_target '' example.com:8443 '' =
      Inr \<lparr>target = ''example.com:8443'', hostname = ''example.com'', port = 8443,
           tls_version = None, cipher_name = None, cipher_protocol = None, cipher_bits = None,
           weak_protocol = False, weak_cipher = False, error = None\<rparr>"
    by code_simp
  have s2: "strip '' example.com:8443 '' = ''example.com:8443''" by code_simp
  have s3: "strip ''  '' = []" by code_simp
  have s4: "strip ''a:b'' = ''a'' @ CHR '':'' # ''b''" by code_simp
  have d4: "\<not> isdigit ''b''" by code_simp
  have c1: "CHR '':'' \<notin> set (strip ''example.com'')" by (simp add: s1)
  have c2: "CHR '':'' \<in> set (strip '' example.com:8443 '')" by (simp add: s2)
  note t2 = parse_target_accepted [of "'' example.com:8443 ''", THEN conjunct1, THEN mp, OF p2]
  note t3 = parse_target_accepted [of "''  ''", THEN conjunct2, THEN conjunct1, THEN mp, OF s3]
  have n4: "CHR '':'' \<notin> set ''b''" by simp
  note t4 = parse_target_accepted [of "''a:b''", THEN conjunct2, THEN conjunct2, rule_format,
      of "''a''" "''b''", OF conjI [OF s4 conjI [OF n4 d4]]]
  note u2 = t2 [THEN conjunct2, THEN conjunct2, THEN conjunct2, THEN mp, OF c2]
  from u2 obtain ps where
    ps: "strip '' example.com:8443 '' = ''example.com'' @ CHR '':'' # ps" "isdigit ps"
      "digits_value ps = 8443"
    by auto
  have e2: "\<exists>port_str. strip '' example.com:8443 '' = ''example.com'' @ CHR '':'' # port_str \<and>
       isdigit port_str \<and> digits_value port_str = 8443"
    using ps by (intro exI [of _ ps] conjI)
  show ?thesis
    by (intro conjI) (rule p1 c1 p2 c2 e2 s3 t3 s4 n4 d4 t4)+
qed

text \<open>
  C5 as stated fails: the entry \<open>:0\<close> is accepted with an empty host and port 0, outside
  the range 1 to 65535.
\<close>

theorem parse_target_invariant_counterexample:
  "parse_target '':0'' =
     Inr \<lparr>target = '':0'', hostname = [], port = 0, tls_version = None, cipher_name = None,
          cipher_protocol = None, cipher_bits = None, weak_protocol = False,
          weak_cipher = False, error = None\<rparr>"
  by code_simp

section \<open>The weak cipher rule\<close>

text \<open>
  C3, as amended. \<open>is_weak_cipher\<close> answers true exactly when the cipher name is present and
  not empty and either the name, compared without regard to case, contains one of RC4, 3DES,
  DES-, MD5, NULL, EXPORT, or the bit length is present and below 128.
\<close>

theorem is_weak_cipher_iff:
  "is_weak_cipher name bits = (name \<noteq> None \<and> name \<noteq> Some [] \<and> weakCipher_spec name bits)"
proof (cases name)
  case None
  then show ?thesis by (simp add: is_weak_cipher_def)
next
  case (Some n)
  then show ?thesis
    by (cases bits) (auto simp: is_weak_cipher_def weakCipher_spec_def deny_list_match)
qed

theorem is_weak_cipher_iff_witness:
  "is_weak_cipher (Some ''ECDHE-RSA-AES128-GCM-SHA256'') (Some 112) \<and>
   is_weak_cipher (Some ''tls_rsa_with_3des_ede_cbc_sha'') (Some 168) \<and>
   \<not> is_weak_cipher (Some ''TLS_AES_256_GCM_SHA384'') (Some 256)"
proof -
  have a: "weakCipher_spec (Some ''ECDHE-RSA-AES128-GCM-SHA256'') (Some 112)"
    by (simp add: weakCipher_spec_def)
  have b: "weakCipher_spec (Some ''tls_rsa_with_3des_ede_cbc_sha'') (Some 168)"
    by code_simp
  have c: "\<not> weakCipher_spec (Some ''TLS_AES_256_GCM_SHA384'') (Some 256)"
    by code_simp
  show ?thesis
    using a b c is_weak_cipher_iff [of "Some ''ECDHE-RSA-AES128-GCM-SHA256''" "Some 112"]
      is_weak_cipher_iff [of "Some ''tls_rsa_with_3des_ede_cbc_sha''" "Some 168"]
      is_weak_cipher_iff [of "Some ''TLS_AES_256_GCM_SHA384''" "Some 256"]
    by simp
qed

text \<open>
  C3 as stated fails: with no cipher name and a bit length of 56 the rule of the specification
  holds, and \<open>is_weak_cipher\<close> answers false.
\<close>

theorem is_weak_cipher_counterexample:
  "weakCipher_spec None (Some 56) \<and> \<not> is_weak_cipher None (Some 56)"
  by (simp add: weakCipher_spec_def is_weak_cipher_def)

section \<open>Entries that do not parse\<close>

text \<open>
  C10. When parsing a raw target string fails, the loop of \<open>main\<close> records a result whose
  \<open>target\<close> and \<open>hostname\<close> are the raw string, whose port is 0, whose observation fields
  are absent, whose two flags are false and whose error is \<open>Invalid target format: \<close>
  followed by the parser's message (empty entry or invalid port). The result does not depend
  on the network, so no connection is made for it, and it stands at the entry's position in
  the batch.
\<close>

theorem parse_failure_result:
  assumes "parse_target raw = Inl e"
  shows "probe_entry net raw =
           \<lparr>target = raw, hostname = raw, port = 0, tls_version = None, cipher_name = None,
            cipher_protocol = None, cipher_bits = None, weak_protocol = False,
            weak_cipher = False, error = Some (''Invalid target format: '' @ e)\<rparr> \<and>
         (e = ''Empty target entry'' \<or> e = ''Invalid port in target: '' @ strip raw) \<and>
         (\<forall>targets i. i < length targets \<and> targets ! i = raw \<longrightarrow>
            length (main_loop net targets []) = length targets \<and>
            main_loop net targets [] ! i =
              \<lparr>target = raw, hostname = raw, port = 0, tls_version = None, cipher_name = None,
               cipher_protocol = None, cipher_bits = None, weak_protocol = False,
               weak_cipher = False, error = Some (''Invalid target format: '' @ e)\<rparr>)"
proof -
  have p: "probe_entry net raw =
           \<lparr>target = raw, hostname = raw, port = 0, tls_version = None, cipher_name = None,
            cipher_protocol = None, cipher_bits = None, weak_protocol = False,
            weak_cipher = False, error = Some (''Invalid target format: '' @ e)\<rparr>"
    using assms by (simp add: probe_entry_def)
  moreover have "e = ''Empty target entry'' \<or> e = ''Invalid port in target: '' @ strip raw"
    using parse_target_errors [OF assms] by blast
  moreover have "\<forall>targets i. i < length targets \<and> targets ! i = raw \<longrightarrow>
            length (main_loop net targets []) = length targets \<and>
            main_loop net targets [] ! i = probe_entry net raw"
    by (simp add: main_loop_map)
  ultimately show ?thesis by simp
qed


theorem parse_failure_result_witness:
  "parse_target ''host:https'' = Inl ''Invalid port in target: host:https'' \<and>
   probe_entry (\<lambda>h p. Inl ''refused'') ''host:https'' =
     \<lparr>target = ''host:https'', hostname = ''host:https'', port = 0, tls_version = None,
      cipher_name = None, cipher_protocol = None, cipher_bits = None, weak_protocol = False,
      weak_cipher = False,
      error = Some ''Invalid target format: Invalid port in target: host:https''\<rparr> \<and>
   main_loop (\<lambda>h p. Inl ''refused'') [''a:443'', ''host:https''] [] ! 1 =
     \<lparr>target = ''host:https'', hostname = ''host:https'', port = 0, tls_version = None,
      cipher_name = None, cipher_protocol = None, cipher_bits = None, weak_protocol = False,
      weak_cipher = False,
      error = Some ''Invalid target format: Invalid port in target: host:https''\<rparr>"
proof -
  have h: "parse_target ''host:https'' = Inl ''Invalid port in target: host:https''"
    by code_simp
  note r = parse_failure_result [OF h, of "\<lambda>h p. Inl ''refused''"]
  have m: "main_loop (\<lambda>h p. Inl ''refused'') [''a:443'', ''host:https''] [] ! 1 =
     \<lparr>target = ''host:https'', hostname = ''host:https'', port = 0, tls_version = None,
      cipher_name = None, cipher_protocol = None, cipher_bits = None, weak_protocol = False,
      weak_cipher = False,
      error = Some (''Invalid target format: '' @ ''Invalid port in target: host:https'')\<rparr>"
    using r [THEN conjunct2, THEN conjunct2, rule_format, of 1 "[''a:443'', ''host:https'']"]
    by simp
  show ?thesis using h r m by simp
qed

section \<open>Gathering and removing duplicates\<close>

text \<open>
  C8. The value of \<open>--target\<close> is taken as given, while the entries of \<open>--targets\<close> and of
  the input file are trimmed. With \<open>--target\<close> set to \<open>a:443\<close> followed by a space and
  \<open>--targets\<close> set to \<open>a:443\<close>, the two entries have the same trimmed text and both
  survive the removal of duplicates; the batch then holds two results for the target
  \<open>a:443\<close>.
\<close>

theorem gather_targets_untrimmed_duplicate:
  "gather_targets \<lparr>arg_target = Some ''a:443 '', arg_targets = Some ''a:443'', arg_input = None\<rparr> =
     Inr [''a:443 '', ''a:443''] \<and>
   map_sum id (map target)
     (main (\<lambda>h p. Inl ''refused'')
        \<lparr>arg_target = Some ''a:443 '', arg_targets = Some ''a:443'', arg_input = None\<rparr>) =
     Inr [''a:443'', ''a:443'']"
  by code_simp


section \<open>The recorded redirect chain\<close>





section \<open>The redirect bound\<close>

text \<open>
  C4. When each of the first ten requests, whatever its URL, is answered with a status in
  300 to 399 and a Location header, and locations always resolve, \<open>fetch_url\<close> returns a
  chain of exactly ten responses with no error: the tenth response is not followed, so no
  later request of the sequence is made. \<open>analyse_target\<close> then reports that tenth response
  as final, with no error, and evaluates no header: both lists of missing headers and the
  findings are empty.
\<close>

theorem redirect_bound:
  assumes "normalize_url env raw = Inr u"
    and "\<forall>n u'. n < 10 \<longrightarrow> (\<exists>r. http_get env n u' = Inr r \<and> is_redirect r \<and>
                 header_dict (resp_headers r) ''location'' \<noteq> None)"
    and "\<forall>b l. \<exists>x. urljoin env b l = Inr x"
  shows "\<exists>rs. fetch_url env u = (rs, None) \<and> length rs = 10 \<and> is_redirect (last rs) \<and>
           analyse_target env raw =
             Inr \<lparr>url = u, final_url = Some (resp_url (last rs)),
                  scheme = Some (urlparse_scheme env (resp_url (last rs))),
                  status_code = Some (resp_status_code (last rs)),
                  redirect_chain = join '' -> '' (map resp_url rs),
                  https_downgrade = (urlparse_scheme env (resp_url (hd rs)) = ''https'' \<and>
                                     urlparse_scheme env (resp_url (last rs)) = ''http''),
                  missing_required_headers = [], missing_optional_headers = [],
                  header_findings = [], site_error = None\<rparr>"
proof -
  from assms(2) obtain r0 where
    g: "http_get env 0 u = Inr r0" and r: "is_redirect r0"
      "header_dict (resp_headers r0) ''location'' \<noteq> None"
    by (meson zero_less_numeral)
  from follow_redirecting [OF assms(2,3) r, of "[r0]"] obtain rs where
    f: "follow env r0 [r0] = Inr rs" and l: "length rs = 10" "is_redirect (last rs)"
    by auto
  have fu: "fetch_url env u = (rs, None)" using g f by (simp add: fetch_url_def)
  show ?thesis
    using fu l analyse_target_ok [OF assms(1) fu] by (intro exI [of _ rs]) simp
qed


theorem redirect_bound_witness:
  "normalize_url redirecting_env ''https://a'' = Inr ''https://a'' \<and>
   (\<exists>rs. fetch_url redirecting_env ''https://a'' = (rs, None) \<and> length rs = 10 \<and>
      is_redirect (last rs) \<and>
      (\<exists>res. analyse_target redirecting_env ''https://a'' = Inr res \<and> site_error res = None \<and>
         status_code res = Some (resp_status_code (last rs)) \<and>
         missing_required_headers res = [] \<and> missing_optional_headers res = [] \<and>
         header_findings res = []))"
proof -
  have n: "normalize_url redirecting_env ''https://a'' = Inr ''https://a''" by code_simp
  have h1: "\<forall>n u'. n < 10 \<longrightarrow> (\<exists>r. http_get redirecting_env n u' = Inr r \<and> is_redirect r \<and>
                 header_dict (resp_headers r) ''location'' \<noteq> None)"
  proof -
    have "lower ''Location'' = ''location''" by code_simp
    then show ?thesis by (simp add: redirecting_env_def is_redirect_def header_dict_def)
  qed
  have h2: "\<forall>b l. \<exists>x. urljoin redirecting_env b l = Inr x"
    by (simp add: redirecting_env_def)
  from redirect_bound [OF n h1 h2] obtain rs where
    r: "fetch_url redirecting_env ''https://a'' = (rs, None)" "length rs = 10"
      "is_redirect (last rs)" and
    a: "analyse_target redirecting_env ''https://a'' =
             Inr \<lparr>url = ''https://a'', final_url = Some (resp_url (last rs)),
                  scheme = Some (urlparse_scheme redirecting_env (resp_url (last rs))),
                  status_code = Some (resp_status_code (last rs)),
                  redirect_chain = join '' -> '' (map resp_url rs),
                  https_downgrade =
                    (urlparse_scheme redirecting_env (resp_url (hd rs)) = ''https'' \<and>
                     urlparse_scheme redirecting_env (resp_url (last rs)) = ''http''),
                  missing_required_headers = [], missing_optional_headers = [],
                  header_findings = [], site_error = None\<rparr>"
    by blast
  show ?thesis
    apply (rule conjI [OF n])
    apply (rule exI [of _ rs])
    apply (simp add: r a)
    done
qed


section \<open>A redirect without a location\<close>

text \<open>
  C9. A response with a status in 300 to 399 and no Location header ends the loop at once.
  When the chain of a run without failure ends in such a response, \<open>analyse_target\<close> reports
  success: the error is unset, the final URL and the status code are those of that response,
  and no header is evaluated, so both lists of missing headers and the findings are empty.
\<close>

theorem terminal_redirect_without_location:
  assumes "is_redirect resp" and "header_dict (resp_headers resp) ''location'' = None"
  shows "follow env resp responses = Inr responses \<and>
         (\<forall>raw u rs. normalize_url env raw = Inr u \<and> fetch_url env u = (rs, None) \<and> last rs = resp \<longrightarrow>
            analyse_target env raw =
              Inr \<lparr>url = u, final_url = Some (resp_url resp),
                   scheme = Some (urlparse_scheme env (resp_url resp)),
                   status_code = Some (resp_status_code resp),
                   redirect_chain = join '' -> '' (map resp_url rs),
                   https_downgrade = (urlparse_scheme env (resp_url (hd rs)) = ''https'' \<and>
                                      urlparse_scheme env (resp_url resp) = ''http''),
                   missing_required_headers = [], missing_optional_headers = [],
                   header_findings = [], site_error = None\<rparr>)"
proof (intro conjI allI impI)
  show "follow env resp responses = Inr responses" using assms(2) by (rule follow_stops)
next
  fix raw u rs
  assume h: "normalize_url env raw = Inr u \<and> fetch_url env u = (rs, None) \<and> last rs = resp"
  then have n: "normalize_url env raw = Inr u" and f: "fetch_url env u = (rs, None)"
    and l: "last rs = resp" by simp_all
  show "analyse_target env raw =
              Inr \<lparr>url = u, final_url = Some (resp_url resp),
                   scheme = Some (urlparse_scheme env (resp_url resp)),
                   status_code = Some (resp_status_code resp),
                   redirect_chain = join '' -> '' (map resp_url rs),
                   https_downgrade = (urlparse_scheme env (resp_url (hd rs)) = ''https'' \<and>
                                      urlparse_scheme env (resp_url resp) = ''http''),
                   missing_required_headers = [], missing_optional_headers = [],
                   header_findings = [], site_error = None\<rparr>"
    using analyse_target_ok [OF n f] l assms(1) by simp
qed

theorem terminal_redirect_without_location_witness:
  "fetch_url dead_end_env ''https://site/'' =
     ([\<lparr>resp_url = ''https://site/'', resp_status_code = 301,
        resp_headers = [(''Location'', ''https://site/next'')]\<rparr>,
       \<lparr>resp_url = ''https://site/next'', resp_status_code = 304,
        resp_headers = [(''Content-Type'', ''text/html'')]\<rparr>], None) \<and>
   analyse_target dead_end_env ''https://site/'' =
     Inr \<lparr>url = ''https://site/'', final_url = Some ''https://site/next'',
          scheme = Some ''https'', status_code = Some 304,
          redirect_chain = ''https://site/ -> https://site/next'',
          https_downgrade = False, missing_required_headers = [],
          missing_optional_headers = [], header_findings = [], site_error = None\<rparr>"
proof -
  let ?r1 = "\<lparr>resp_url = ''https://site/next'', resp_status_code = 304,
        resp_headers = [(''Content-Type'', ''text/html'')]\<rparr>"
  let ?rs = "[\<lparr>resp_url = ''https://site/'', resp_status_code = 301,
        resp_headers = [(''Location'', ''https://site/next'')]\<rparr>, ?r1]"
  have f: "fetch_url dead_end_env ''https://site/'' = (?rs, None)" by code_simp
  have n: "normalize_url dead_end_env ''https://site/'' = Inr ''https://site/''" by code_simp
  have a: "is_redirect ?r1" by (simp add: is_redirect_def)
  have b: "header_dict (resp_headers ?r1) ''location'' = None" by code_simp
  have l: "last ?rs = ?r1" by simp
  have s1: "urlparse_scheme dead_end_env ''https://site/next'' = ''https''" by code_simp
  have s0: "urlparse_scheme dead_end_env ''https://site/'' = ''https''" by code_simp
  note t = terminal_redirect_without_location [OF a b, of dead_end_env "[]", THEN conjunct2,
      rule_format, OF conjI [OF n conjI [OF f l]]]
  show ?thesis using f t s0 s1 by simp
qed



section \<open>The downgrade flag\<close>

text \<open>
  C6. For every chain fetched without failure, \<open>https_downgrade\<close> is true exactly when the
  scheme of the first URL of the chain is \<open>https\<close> and the scheme of the final response's
  URL is \<open>http\<close>. The first URL is read from the first response, which is the answer to
  the very first request; where that response carries the scheme of the requested URL, as the
  HTTP library records it, the flag is stated on the requested URL itself. When the final
  scheme is \<open>https\<close> the flag is false, whatever the length of the chain and the schemes
  in between.
\<close>

theorem https_downgrade_iff:
  assumes "normalize_url env raw = Inr u" and "fetch_url env u = (rs, None)"
  shows "\<exists>res. analyse_target env raw = Inr res \<and> site_error res = None \<and>
           http_get env 0 u = Inr (hd rs) \<and>
           final_url res = Some (resp_url (last rs)) \<and>
           https_downgrade res =
             (urlparse_scheme env (resp_url (hd rs)) = ''https'' \<and>
              urlparse_scheme env (resp_url (last rs)) = ''http'') \<and>
           (urlparse_scheme env (resp_url (hd rs)) = urlparse_scheme env u \<longrightarrow>
              https_downgrade res =
                (urlparse_scheme env u = ''https'' \<and>
                 urlparse_scheme env (resp_url (last rs)) = ''http'')) \<and>
           (urlparse_scheme env (resp_url (last rs)) = ''https'' \<longrightarrow> \<not> https_downgrade res)"
proof -
  from fetch_url_ok [OF assms(2)] have g: "http_get env 0 u = Inr (hd rs)" by auto
  show ?thesis
    by (rule exI, rule conjI, rule analyse_target_ok [OF assms]) (simp add: g)
qed

theorem https_downgrade_iff_witness:
  "normalize_url downgrade_env ''https://site/'' = Inr ''https://site/'' \<and>
   (\<exists>rs res. fetch_url downgrade_env ''https://site/'' = (rs, None) \<and>
      analyse_target downgrade_env ''https://site/'' = Inr res \<and>
      urlparse_scheme downgrade_env (resp_url (hd rs)) = ''https'' \<and>
      urlparse_scheme downgrade_env (resp_url (last rs)) = ''http'' \<and>
      https_downgrade res)"
proof -
  let ?rs = "[\<lparr>resp_url = ''https://site/'', resp_status_code = 301,
        resp_headers = [(''Location'', ''http://site/'')]\<rparr>,
       \<lparr>resp_url = ''http://site/'', resp_status_code = 200,
        resp_headers = [(''Strict-Transport-Security'', ''max-age=abc''),
                        (''X-Frame-Options'', ''DENY'')]\<rparr>]"
  have n: "normalize_url downgrade_env ''https://site/'' = Inr ''https://site/''" by code_simp
  have f: "fetch_url downgrade_env ''https://site/'' = (?rs, None)" by code_simp
  have s0: "urlparse_scheme downgrade_env (resp_url (hd ?rs)) = ''https''" by code_simp
  have s1: "urlparse_scheme downgrade_env (resp_url (last ?rs)) = ''http''" by code_simp
  from https_downgrade_iff [OF n f] obtain res where
    a: "analyse_target downgrade_env ''https://site/'' = Inr res" and
    d: "https_downgrade res =
             (urlparse_scheme downgrade_env (resp_url (hd ?rs)) = ''https'' \<and>
              urlparse_scheme downgrade_env (resp_url (last ?rs)) = ''http'')"
    by blast
  from d s0 s1 have "https_downgrade res" by (simp only: simp_thms)
  with a f s0 s1 show ?thesis by (intro conjI n exI [of _ ?rs] exI [of _ res])
qed


section \<open>An HSTS max-age that does not parse\<close>




section \<open>Observation or error\<close>




end
